theory Spec2Isabelle
  imports Main
begin

section \<open>Front end of the Clara compiler: tokens, types, symbols and the syntax tree\<close>

text \<open>
  The development embeds two source files of the compiler front end:
  the recursive-descent parser with its panic-mode error recovery (\<open>Parser\<close>), and the
  semantic passes of \<open>semantic.go\<close> (\<open>typeCheck\<close>, \<open>generateStructConstructors\<close>).
  Go pointers are options (\<open>None\<close> is \<open>nil\<close>), a panic is the left injection of a sum,
  in-place mutation of the tree is a function that returns the updated node, and the
  error list a pass appends to is returned next to it.
\<close>

subsection \<open>Tokens\<close>

text \<open>
  \<open>lex.Token\<close> as the front end reads it: the lexical kind, the literal text and the source
  position. The kinds are the constants of package \<open>lex\<close> the parser names; every other
  kind is \<open>lex_Other\<close>.
\<close>

datatype Kind_lex = lex_EOF | lex_Fn | lex_Identifier | lex_LParen | lex_RParen | lex_LBrace | lex_RBrace
  | lex_Comma | lex_Integer | lex_String | lex_Other nat

record Token =
  Kind_tok :: Kind_lex
  Val :: string
  File :: string
  Line :: int
  Pos :: int

subsection \<open>Types, symbols and scopes\<close>

text \<open>
  Modelled from the spec: the declarations of \<open>TypeKind\<close>, \<open>Type\<close>, \<open>FunctionType\<close>,
  \<open>StructType\<close>, \<open>Symbol\<close> and \<open>SymTab\<close> are not among the source files; the fields are the
  ones \<open>semantic.go\<close> reads and writes (\<open>Kind\<close>, \<open>Data\<close>; \<open>Name\<close>, \<open>ArgCount\<close>,
  \<open>isVariadic\<close>, \<open>isConstructor\<close>, \<open>ret\<close>, \<open>args\<close>; \<open>Name\<close>, \<open>Addr\<close>, \<open>Type\<close>) and the
  rest follows the data model of the spec: a type is a kind tag plus a descriptor for
  function and struct kinds, a struct descriptor is an ordered field list that maps a name
  to a symbol and a byte offset, a scope maps names to symbols and is linked to its
  enclosing scope. \<open>ArrayData\<close> carries the element type of an \<open>Array<T>\<close>.
  Pointer-typed fields (\<open>ret\<close>, \<open>args\<close>, \<open>Type\<close>, \<open>parent\<close>) are options.
\<close>

datatype TypeKind = Struct | Function | Integer | Boolean | String | Array | Nothing

datatype Type = MkType (Kind: TypeKind) (Data: TypeData)
and TypeData = NoData | FunctionData FunctionType | StructData StructType | ArrayData Type
and FunctionType = FunctionType (Name_fn: string) (ArgCount: int) (isVariadic: bool)
    (isConstructor: bool) (ret: "Type option") (args: "SymTab option")
and StructType = StructType (Name_st: string) (Fields: "(Symbol \<times> int) list")
and Symbol = Symbol (Name: string) (Addr: int) (Type: "Type option")
and SymTab = SymTab (symbols: "Symbol list") (parent: "SymTab option")

subsection \<open>Operators, diagnostics and panics\<close>

text \<open>
  \<open>Op\<close> lists the operator constants the sources name; \<open>opOther\<close> is any other value of
  the integer field \<open>op\<close>.
\<close>

datatype Op = opFuncDcl | opFuncCall | opStrLit | opIntegerLit | opRoot
  | opIf | opElseIf | opElse | opReturn | opAnd | opOr | opAdd | opMul | opMin | opDiv | opNot
  | opLit | opIdentifier | opGt | opLt | opEq | opDot | opArray | opError | opStruct | opOther nat

text \<open>
  An error is built by \<open>errors.New(fmt.Sprintf(msg, args...))\<close>: the model keeps the format
  constant and the argument list. \<open>ATypeName t\<close> stands for the string \<open>t.Name()\<close> and
  \<open>AExpected ks\<close> for the joined names of the expected token kinds.
\<close>

datatype Msg = errUndefinedMsg | errNotFuncMsg | errTooManyArgsMsg | errTooFewArgsMsg
  | errUnknownTypeMsg | errUnknownVarMsg | errStructNamingLowerMsg | errNotStructMsg
  | errStructHasNoFieldMsg | errInvalidDotSelectionMsg | errInvalidOperatorTypeMsg
  | errMismatchedTypesMsg | errNonIntegerIndexMsg | syntaxErrMsg | errRedeclaredMsg | errArgCountMsg

datatype Arg = AStr string | AInt int | AKind TypeKind | ATypeName Type | AExpected "Kind_lex list"

datatype error = Error Msg "Arg list"

text \<open>
  The values a panic carries: a nil dereference, a failed type assertion, the two explicit
  panics of \<open>typeCheck\<close>, an index or slice bound out of range, the error of
  \<open>strconv.ParseInt\<close>, and the parser's sentinel \<open>errUnexpectedEof\<close>.
\<close>

datatype panic = NilPointer | TypeAssertion | RootTypeCheck | NotProcessed Op
  | IndexOutOfRange | ParseIntError | errUnexpectedEof

subsection \<open>The syntax tree\<close>

text \<open>
  Modelled from the spec: the \<open>Node\<close> declaration that \<open>semantic.go\<close> compiles against is not
  among the source files; the fields are the ones it uses. The selectors \<open>sym_of\<close> and \<open>typ_of\<close>
  are the fields \<open>sym\<close> and \<open>typ\<close>. A node owns its children, so the tree is a datatype and
  an assignment to a field is one of the \<open>set_\<close> functions below.
\<close>

datatype Node = Node (token: "Token option") (left: "Node option") (right: "Node option")
  (stmts: "Node option list") (params: "Node option list") (op: Op)
  (symtab: "SymTab option") (sym_of: "Symbol option") (typ_of: "Type option")

primrec set_token :: "Token option \<Rightarrow> Node \<Rightarrow> Node" where
  "set_token v (Node tok l r ss ps o' st sy ty) = Node v l r ss ps o' st sy ty"
primrec set_left :: "Node option \<Rightarrow> Node \<Rightarrow> Node" where
  "set_left v (Node tok l r ss ps o' st sy ty) = Node tok v r ss ps o' st sy ty"
primrec set_right :: "Node option \<Rightarrow> Node \<Rightarrow> Node" where
  "set_right v (Node tok l r ss ps o' st sy ty) = Node tok l v ss ps o' st sy ty"
primrec set_stmts :: "Node option list \<Rightarrow> Node \<Rightarrow> Node" where
  "set_stmts v (Node tok l r ss ps o' st sy ty) = Node tok l r v ps o' st sy ty"
primrec set_params :: "Node option list \<Rightarrow> Node \<Rightarrow> Node" where
  "set_params v (Node tok l r ss ps o' st sy ty) = Node tok l r ss v o' st sy ty"
primrec set_op :: "Op \<Rightarrow> Node \<Rightarrow> Node" where
  "set_op v (Node tok l r ss ps o' st sy ty) = Node tok l r ss ps v st sy ty"
primrec set_symtab :: "SymTab option \<Rightarrow> Node \<Rightarrow> Node" where
  "set_symtab v (Node tok l r ss ps o' st sy ty) = Node tok l r ss ps o' v sy ty"
primrec set_sym :: "Symbol option \<Rightarrow> Node \<Rightarrow> Node" where
  "set_sym v (Node tok l r ss ps o' st sy ty) = Node tok l r ss ps o' st v ty"
primrec set_typ :: "Type option \<Rightarrow> Node \<Rightarrow> Node" where
  "set_typ v (Node tok l r ss ps o' st sy ty) = Node tok l r ss ps o' st sy v"


text \<open>
  The package-level variables \<open>typeCheck\<close> reads. The four predeclared types are declared
  outside the source files, so they are parameters; \<open>fn\<close> is the function which is currently
  being type checked.
\<close>

record Globals =
  intType :: Type
  byteType :: Type
  boolType :: Type
  nothingType :: Type
  fn :: "FunctionType option"

subsection \<open>Sequencing with panics\<close>

definition andThen :: "panic + 'a \<Rightarrow> ('a \<Rightarrow> panic + 'b) \<Rightarrow> panic + 'b" where
  "andThen m f = (case m of Inl p \<Rightarrow> Inl p | Inr x \<Rightarrow> f x)"

lemma andThen_cong [fundef_cong]:
  "m = m' \<Longrightarrow> (\<And>x. m' = Inr x \<Longrightarrow> f x = f' x) \<Longrightarrow> andThen m f = andThen m' f'"
  by (simp add: andThen_def split: sum.splits)

definition deref :: "'a option \<Rightarrow> panic + 'a" where
  "deref p = (case p of None \<Rightarrow> Inl NilPointer | Some x \<Rightarrow> Inr x)"

text \<open>
  Modelled from the spec: \<open>hasType\<close>, \<open>Is\<close> (written \<open>Kind t = k\<close>), \<open>AsFunction\<close>, \<open>AsStruct\<close>,
  \<open>Offset\<close> and \<open>Resolve\<close> are declared outside the source files. The downcasts are fatal
  when the descriptor does not fit the kind; \<open>Offset\<close> returns the first field of that name
  with its offset; \<open>Resolve\<close> searches the current level, then each enclosing level.
\<close>

definition hasType :: "Node \<Rightarrow> bool" where
  "hasType n = (typ_of n \<noteq> None)"

definition AsFunction :: "Type \<Rightarrow> panic + FunctionType" where
  "AsFunction t = (case Data t of FunctionData f \<Rightarrow> Inr f | _ \<Rightarrow> Inl TypeAssertion)"

definition AsStruct :: "Type \<Rightarrow> panic + StructType" where
  "AsStruct t = (case Data t of StructData s \<Rightarrow> Inr s | _ \<Rightarrow> Inl TypeAssertion)"

definition Offset :: "StructType \<Rightarrow> string \<Rightarrow> (Symbol \<times> int) option" where
  "Offset s name = find (\<lambda>(fsym, off). Name fsym = name) (Fields s)"

fun Resolve :: "SymTab \<Rightarrow> string \<Rightarrow> Symbol option" where
  "Resolve (SymTab syms par) name =
     (case find (\<lambda>s. Name s = name) syms of
        Some s \<Rightarrow> Some s
      | None \<Rightarrow> (case par of None \<Rightarrow> None | Some p \<Rightarrow> Resolve p name))"

subsection \<open>Operator legality\<close>

definition operatorTypes :: "(Op \<times> TypeKind list) list" where
  "operatorTypes =
     [(opAdd, [Integer, String, Array]),
      (opMin, [Integer]),
      (opMul, [Integer]),
      (opDiv, [Integer]),
      (opOr, [Boolean]),
      (opAnd, [Boolean])]"

definition isValid :: "(Op \<times> TypeKind list) list \<Rightarrow> Op \<Rightarrow> TypeKind \<Rightarrow> bool" where
  "isValid ot opr tk = (case map_of ot opr of None \<Rightarrow> False | Some tks \<Rightarrow> List.member tks tk)"

subsection \<open>The type checker\<close>

definition semanticError :: "Msg \<Rightarrow> Token option \<Rightarrow> Arg list \<Rightarrow> panic + error" where
  "semanticError msg t vals =
     andThen (deref t) (\<lambda>tk.
       Inr (Error msg ([AStr (File tk), AInt (Line tk), AInt (Pos tk), AStr (Val tk)] @ vals)))"

definition semanticError2 :: "Msg \<Rightarrow> Token option \<Rightarrow> Arg list \<Rightarrow> panic + error" where
  "semanticError2 msg t vals =
     andThen (deref t) (\<lambda>tk.
       Inr (Error msg ([AStr (File tk), AInt (Line tk), AInt (Pos tk)] @ vals)))"

text \<open>
  \<open>printTypeInfo\<close> prints a debug line; what the model keeps of it is that it dereferences
  the node's token. \<open>stop\<close> is \<open>errs = append(errs, e); goto end\<close>, and \<open>finish\<close> is leaving the
  switch: the debug print, then \<open>end\<close>.
\<close>

definition printTypeInfo :: "Node \<Rightarrow> panic + unit" where
  "printTypeInfo n = andThen (deref (token n)) (\<lambda>_. Inr ())"

definition stop :: "error list \<Rightarrow> Node \<Rightarrow> panic + error \<Rightarrow> panic + (error list \<times> Node)" where
  "stop errs n e = andThen e (\<lambda>e'. Inr (errs @ [e'], n))"

definition finish :: "error list \<Rightarrow> Node \<Rightarrow> panic + (error list \<times> Node)" where
  "finish errs n = andThen (printTypeInfo n) (\<lambda>_. Inr (errs, n))"

text \<open>
  \<open>typeCheck\<close> takes the pointer it is called with and returns the errors and the node as
  the call leaves it. \<open>typeCheckAll\<close> is the loop
  \<open>for _, stmt := range xs { errs = append(errs, typeCheck(stmt)...) }\<close>.
  A test \<open>!left.hasType()\<close> is the \<open>None\<close> branch of the case on \<open>typ_of l\<close>.
  Symbols are values here: the assignment \<open>sym.Addr = offset\<close> of the struct-field rule
  shows in the symbol the field node and the dot node receive, not in the copy the struct
  descriptor holds. \<open>typeCheck\<close> never reads \<open>Addr\<close>, so no error and no type depends on it.
\<close>

function typeCheck :: "Globals \<Rightarrow> Node option \<Rightarrow> panic + (error list \<times> Node)"
  and typeCheckAll :: "Globals \<Rightarrow> Node option list \<Rightarrow> panic + (error list \<times> Node option list)"
where
  "typeCheck g None = Inl NilPointer"
| "typeCheck g (Some n) =
    (if op n = opIf \<or> op n = opElseIf then
       andThen (typeCheck g (left n)) (\<lambda>(e1, l).
         let n1 = set_left (Some l) n in
         case typ_of l of
           None \<Rightarrow> Inr (e1, n1)
         | Some lt \<Rightarrow>
             if Kind lt \<noteq> Boolean then
               stop e1 n1 (semanticError2 errMismatchedTypesMsg (token l)
                 [AKind (Kind lt), AKind (Kind (boolType g))])
             else
               andThen (typeCheckAll g (stmts n)) (\<lambda>(e2, ss).
                 let n2 = set_stmts ss n1 in
                 case right n of
                   None \<Rightarrow> finish (e1 @ e2) n2
                 | Some _ \<Rightarrow>
                     andThen (typeCheck g (right n)) (\<lambda>(e3, r).
                       finish (e1 @ e2 @ e3) (set_right (Some r) n2))))
     else if op n = opElse then
       andThen (typeCheckAll g (stmts n)) (\<lambda>(e1, ss). finish e1 (set_stmts ss n))
     else if op n = opReturn then
       (case left n of
          None \<Rightarrow> Inr ([], set_typ (Some (nothingType g)) n)
        | Some _ \<Rightarrow>
            andThen (typeCheck g (left n)) (\<lambda>(e1, l).
              let n1 = set_left (Some l) n in
              case typ_of l of
                None \<Rightarrow> Inr (e1, n1)
              | Some lt \<Rightarrow>
                  andThen (deref (fn g)) (\<lambda>f.
                  andThen (deref (ret f)) (\<lambda>rt.
                    if Kind rt \<noteq> Kind lt then
                      stop e1 n1 (semanticError2 errMismatchedTypesMsg (token l)
                        [AKind (Kind lt), AKind (Kind rt)])
                    else finish e1 (set_typ (typ_of l) n1)))))
     else if op n = opAnd \<or> op n = opOr \<or> op n = opAdd \<or> op n = opMul \<or> op n = opMin
             \<or> op n = opDiv then
       andThen (typeCheck g (left n)) (\<lambda>(e1, l).
       andThen (typeCheck g (right n)) (\<lambda>(e2, r).
         let n1 = set_right (Some r) (set_left (Some l) n) in
         case typ_of l of
           None \<Rightarrow> Inr (e1 @ e2, n1)
         | Some lt \<Rightarrow>
            (case typ_of r of
               None \<Rightarrow> Inr (e1 @ e2, n1)
             | Some rt \<Rightarrow>
                 if \<not> isValid operatorTypes (op n) (Kind lt) then
                   andThen (deref (token n)) (\<lambda>tok.
                     stop (e1 @ e2) n1 (semanticError2 errInvalidOperatorTypeMsg (token l)
                       [ATypeName lt, AStr (Val tok)]))
                 else if \<not> isValid operatorTypes (op n) (Kind rt) then
                   andThen (deref (token n)) (\<lambda>tok.
                     stop (e1 @ e2) n1 (semanticError2 errInvalidOperatorTypeMsg (token r)
                       [ATypeName rt, AStr (Val tok)]))
                 else
                   andThen (if Kind lt \<noteq> Kind rt
                            then stop (e1 @ e2) n1 (semanticError2 errMismatchedTypesMsg (token l)
                                   [ATypeName lt, ATypeName rt])
                            else Inr (e1 @ e2, n1)) (\<lambda>(errs, _).
                     finish errs (set_typ (typ_of l) n1)))))
     else if op n = opNot then
       andThen (typeCheck g (left n)) (\<lambda>(e1, l).
         let n1 = set_left (Some l) n in
         case typ_of l of
           None \<Rightarrow> Inr (e1, n1)
         | Some lt \<Rightarrow>
             if Kind lt \<noteq> Boolean then
               stop e1 n1 (semanticError2 errMismatchedTypesMsg (token l)
                 [AKind (Kind lt), AKind (Kind (boolType g))])
             else finish e1 (set_typ (typ_of l) n1))
     else if op n = opLit then
       andThen (deref (sym_of n)) (\<lambda>s. finish [] (set_typ (Type s) n))
     else if op n = opIdentifier then
       (case sym_of n of
          None \<Rightarrow>
            andThen (deref (token n)) (\<lambda>tok.
            andThen (deref (symtab n)) (\<lambda>st.
              case Resolve st (Val tok) of
                None \<Rightarrow> stop [] n (semanticError errUnknownVarMsg (token n) [])
              | Some s \<Rightarrow> finish [] (set_typ (Type s) (set_sym (Some s) n))))
        | Some s \<Rightarrow> finish [] (set_typ (Type s) n))
     else if op n = opFuncCall then
       andThen (deref (token n)) (\<lambda>tok.
       andThen (deref (symtab n)) (\<lambda>st.
         case Resolve st (Val tok) of
           None \<Rightarrow> stop [] n (semanticError2 errUndefinedMsg (token n) [])
         | Some s \<Rightarrow>
             andThen (deref (Type s)) (\<lambda>sty.
               if Kind sty \<noteq> Function then
                 stop [] n (semanticError errNotFuncMsg (token n) [])
               else
                 andThen (AsFunction sty) (\<lambda>f.
                   if int (length (stmts n)) < ArgCount f then
                     stop [] n (semanticError errTooFewArgsMsg (token n) [])
                   else if int (length (stmts n)) > ArgCount f \<and> \<not> isVariadic f then
                     stop [] n (semanticError errTooManyArgsMsg (token n) [])
                   else
                     andThen (typeCheckAll g (stmts n)) (\<lambda>(e1, ss).
                       finish e1 (set_typ (ret f) (set_sym (Some s) (set_stmts ss n))))))))
     else if op n = opGt \<or> op n = opLt \<or> op n = opEq then
       andThen (typeCheck g (left n)) (\<lambda>(e1, l).
       andThen (typeCheck g (right n)) (\<lambda>(e2, r).
         let n1 = set_right (Some r) (set_left (Some l) n) in
         case typ_of l of
           None \<Rightarrow> Inr (e1 @ e2, n1)
         | Some lt \<Rightarrow>
            (case typ_of r of
               None \<Rightarrow> Inr (e1 @ e2, n1)
             | Some rt \<Rightarrow>
                 if Kind lt \<noteq> Kind rt then
                   stop (e1 @ e2) n1 (semanticError2 errMismatchedTypesMsg (token l)
                     [AKind (Kind lt), AKind (Kind rt)])
                 else finish (e1 @ e2) (set_typ (Some (boolType g)) n1))))
     else if op n = opFuncDcl then
       andThen (typeCheckAll g (params n)) (\<lambda>(e1, ps).
       andThen (typeCheckAll g (stmts n)) (\<lambda>(e2, ss).
       andThen (deref (sym_of n)) (\<lambda>s.
         finish (e1 @ e2) (set_typ (Type s) (set_stmts ss (set_params ps n))))))
     else if op n = opDot then
       andThen (typeCheck g (left n)) (\<lambda>(e1, l).
         let n1 = set_left (Some l) n in
         case typ_of l of
           None \<Rightarrow> Inr (e1, n1)
         | Some lt \<Rightarrow>
             andThen (deref (right n)) (\<lambda>r.
               if op r = opFuncCall then
                 let n2 = set_right None (set_left None (set_stmts (Some l # stmts r)
                            (set_symtab (symtab r) (set_token (token r) (set_op opFuncCall n1)))))
                 in andThen (typeCheck g (Some n2)) (\<lambda>(e2, n3). finish (e1 @ e2) n3)
               else if op r = opIdentifier then
                 andThen (deref (sym_of l)) (\<lambda>ls.
                 andThen (deref (Type ls)) (\<lambda>lst.
                 andThen (if Kind lst = String
                          then andThen (deref (token r)) (\<lambda>rtok. Inr (Val rtok = ''length''))
                          else Inr False) (\<lambda>isLength.
                   if isLength then
                     let rsym = Symbol ''length'' 0 (Some (intType g));
                         r' = set_typ (Type rsym) (set_sym (Some rsym) r)
                     in Inr (e1, set_typ (typ_of r') (set_right (Some r') n1))
                   else if Kind lst \<noteq> Struct then
                     stop e1 n1 (semanticError errNotStructMsg (token l) [])
                   else
                     andThen (AsStruct lst) (\<lambda>strct.
                     andThen (deref (token r)) (\<lambda>rtok.
                       case Offset strct (Val rtok) of
                         None \<Rightarrow> stop e1 n1 (semanticError errStructHasNoFieldMsg (token r)
                                    [AStr (Name_st strct)])
                       | Some (fsym, offset) \<Rightarrow>
                           let fsym' = Symbol (Name fsym) offset (Type fsym);
                               r' = set_typ (Type fsym') (set_sym (Some fsym') r)
                           in finish e1 (set_typ (typ_of r') (set_sym (sym_of r')
                                  (set_right (Some r') n1))))))))
               else stop e1 n1 (semanticError errInvalidDotSelectionMsg (token r) [])))
     else if op n = opArray then
       andThen (typeCheck g (left n)) (\<lambda>(e1, l).
       andThen (typeCheck g (right n)) (\<lambda>(e2, r).
         let n1 = set_right (Some r) (set_left (Some l) n) in
         case typ_of l of
           None \<Rightarrow> Inr (e1 @ e2, n1)
         | Some lt \<Rightarrow>
            (case typ_of r of
               None \<Rightarrow> Inr (e1 @ e2, n1)
             | Some rt \<Rightarrow>
                 if Kind rt \<noteq> Integer then
                   stop (e1 @ e2) n1 (semanticError2 errNonIntegerIndexMsg (token r)
                     [AKind (Kind rt)])
                 else finish (e1 @ e2)
                        (set_typ (if Kind lt = String then Some (byteType g) else typ_of l) n1))))
     else if op n = opRoot then Inl RootTypeCheck
     else if op n = opError then Inr ([], n)
     else Inl (NotProcessed (op n)))"
| "typeCheckAll g [] = Inr ([], [])"
| "typeCheckAll g (x # xs) =
     andThen (typeCheck g x) (\<lambda>(e, x').
     andThen (typeCheckAll g xs) (\<lambda>(es, xs'). Inr (e @ es, Some x' # xs')))"
  by pat_completeness auto




subsection \<open>Termination of the type checker\<close>

text \<open>
  The dot rule calls \<open>typeCheck\<close> again on the node it has rewritten, whose first argument
  is the checked receiver. The call terminates because checking never adds a node:
  \<open>nodes\<close> counts two for a node and one for each slot of a statement or parameter list.
\<close>

lemma set_simps [simp]:
  "token (set_token v0 n) = v0"
  "left (set_token v0 n) = left n"
  "right (set_token v0 n) = right n"
  "stmts (set_token v0 n) = stmts n"
  "params (set_token v0 n) = params n"
  "op (set_token v0 n) = op n"
  "symtab (set_token v0 n) = symtab n"
  "sym_of (set_token v0 n) = sym_of n"
  "typ_of (set_token v0 n) = typ_of n"
  "token (set_left v1 n) = token n"
  "left (set_left v1 n) = v1"
  "right (set_left v1 n) = right n"
  "stmts (set_left v1 n) = stmts n"
  "params (set_left v1 n) = params n"
  "op (set_left v1 n) = op n"
  "symtab (set_left v1 n) = symtab n"
  "sym_of (set_left v1 n) = sym_of n"
  "typ_of (set_left v1 n) = typ_of n"
  "token (set_right v2 n) = token n"
  "left (set_right v2 n) = left n"
  "right (set_right v2 n) = v2"
  "stmts (set_right v2 n) = stmts n"
  "params (set_right v2 n) = params n"
  "op (set_right v2 n) = op n"
  "symtab (set_right v2 n) = symtab n"
  "sym_of (set_right v2 n) = sym_of n"
  "typ_of (set_right v2 n) = typ_of n"
  "token (set_stmts v3 n) = token n"
  "left (set_stmts v3 n) = left n"
  "right (set_stmts v3 n) = right n"
  "stmts (set_stmts v3 n) = v3"
  "params (set_stmts v3 n) = params n"
  "op (set_stmts v3 n) = op n"
  "symtab (set_stmts v3 n) = symtab n"
  "sym_of (set_stmts v3 n) = sym_of n"
  "typ_of (set_stmts v3 n) = typ_of n"
  "token (set_params v4 n) = token n"
  "left (set_params v4 n) = left n"
  "right (set_params v4 n) = right n"
  "stmts (set_params v4 n) = stmts n"
  "params (set_params v4 n) = v4"
  "op (set_params v4 n) = op n"
  "symtab (set_params v4 n) = symtab n"
  "sym_of (set_params v4 n) = sym_of n"
  "typ_of (set_params v4 n) = typ_of n"
  "token (set_op v5 n) = token n"
  "left (set_op v5 n) = left n"
  "right (set_op v5 n) = right n"
  "stmts (set_op v5 n) = stmts n"
  "params (set_op v5 n) = params n"
  "op (set_op v5 n) = v5"
  "symtab (set_op v5 n) = symtab n"
  "sym_of (set_op v5 n) = sym_of n"
  "typ_of (set_op v5 n) = typ_of n"
  "token (set_symtab v6 n) = token n"
  "left (set_symtab v6 n) = left n"
  "right (set_symtab v6 n) = right n"
  "stmts (set_symtab v6 n) = stmts n"
  "params (set_symtab v6 n) = params n"
  "op (set_symtab v6 n) = op n"
  "symtab (set_symtab v6 n) = v6"
  "sym_of (set_symtab v6 n) = sym_of n"
  "typ_of (set_symtab v6 n) = typ_of n"
  "token (set_sym v7 n) = token n"
  "left (set_sym v7 n) = left n"
  "right (set_sym v7 n) = right n"
  "stmts (set_sym v7 n) = stmts n"
  "params (set_sym v7 n) = params n"
  "op (set_sym v7 n) = op n"
  "symtab (set_sym v7 n) = symtab n"
  "sym_of (set_sym v7 n) = v7"
  "typ_of (set_sym v7 n) = typ_of n"
  "token (set_typ v8 n) = token n"
  "left (set_typ v8 n) = left n"
  "right (set_typ v8 n) = right n"
  "stmts (set_typ v8 n) = stmts n"
  "params (set_typ v8 n) = params n"
  "op (set_typ v8 n) = op n"
  "symtab (set_typ v8 n) = symtab n"
  "sym_of (set_typ v8 n) = sym_of n"
  "typ_of (set_typ v8 n) = v8"
  by (cases n; simp)+

fun weight :: "nat option \<Rightarrow> nat" where
  "weight None = 0"
| "weight (Some k) = k"

primrec nodes :: "Node \<Rightarrow> nat" where
  "nodes (Node tok l r ss ps o' st sy ty) =
     2 + weight (map_option nodes l) + weight (map_option nodes r)
       + sum_list (map (\<lambda>k. 1 + weight k) (map (map_option nodes) ss))
       + sum_list (map (\<lambda>k. 1 + weight k) (map (map_option nodes) ps))"

definition nodesP :: "Node option \<Rightarrow> nat" where
  "nodesP p = weight (map_option nodes p)"

definition nodesL :: "Node option list \<Rightarrow> nat" where
  "nodesL xs = sum_list (map (\<lambda>x. 1 + nodesP x) xs)"

lemma nodesP_simps [simp]: "nodesP None = 0" "nodesP (Some n) = nodes n"
  by (simp_all add: nodesP_def)

lemma nodesL_simps [simp]: "nodesL [] = 0" "nodesL (x # xs) = 1 + nodesP x + nodesL xs"
  by (simp_all add: nodesL_def)

lemma nodes_alt:
  "nodes n = 2 + nodesP (left n) + nodesP (right n) + nodesL (stmts n) + nodesL (params n)"
  by (cases n) (simp add: nodesP_def nodesL_def comp_def)

lemma andThen_simps [simp]: "andThen (Inl p) f = Inl p" "andThen (Inr x) f = f x"
  by (simp_all add: andThen_def)

lemma andThen_Inr:
  "andThen m f = Inr y \<Longrightarrow> (\<And>x. m = Inr x \<Longrightarrow> f x = Inr y \<Longrightarrow> P) \<Longrightarrow> P"
  by (cases m) (simp_all add: andThen_def)

lemma stop_nodes: "stop errs n e = Inr (es, n') \<Longrightarrow> n' = n"
  by (auto simp: stop_def andThen_def split: sum.splits)

lemma finish_nodes: "finish errs n = Inr (es, n') \<Longrightarrow> n' = n"
  by (auto simp: finish_def andThen_def split: sum.splits)

lemma typeCheck_nodes:
  "typeCheck_typeCheckAll_dom (Inl (g, p)) \<Longrightarrow> typeCheck g p = Inr (es, n') \<Longrightarrow> nodes n' \<le> nodesP p"
  "typeCheck_typeCheckAll_dom (Inr (g, xs)) \<Longrightarrow> typeCheckAll g xs = Inr (es', xs') \<Longrightarrow> nodesL xs' \<le> nodesL xs"
proof (induct g p and g xs arbitrary: es n' and es' xs' rule: typeCheck_typeCheckAll.pinduct)
  case (1 g)
  then show ?case by (simp add: typeCheck.psimps)
next
  case (2 g n)
  from 2(1) 2(19) have eq: "typeCheck g (Some n) = Inr (es, n')" by simp
  note unf = eq[unfolded typeCheck.psimps(2)[OF 2(1)]]
  note IH = 2(2-18)
  consider (cIf) "op n = opIf \<or> op n = opElseIf" | (cElse) "op n = opElse"
    | (cReturn) "op n = opReturn"
    | (cBin) "op n = opAnd \<or> op n = opOr \<or> op n = opAdd \<or> op n = opMul \<or> op n = opMin \<or> op n = opDiv"
    | (cNot) "op n = opNot" | (cLit) "op n = opLit" | (cId) "op n = opIdentifier"
    | (cCall) "op n = opFuncCall" | (cCmp) "op n = opGt \<or> op n = opLt \<or> op n = opEq"
    | (cDcl) "op n = opFuncDcl" | (cDot) "op n = opDot" | (cArr) "op n = opArray"
    | (cRest) "op n \<notin> {opIf, opElseIf, opElse, opReturn, opAnd, opOr, opAdd, opMul, opMin, opDiv,
         opNot, opLit, opIdentifier, opFuncCall, opGt, opLt, opEq, opFuncDcl, opDot, opArray}"
    by auto
  then show ?case
  proof cases
    case cIf
    note u = unf[unfolded eqTrueI[OF cIf] if_True]
    have ih1: "\<And>e l. typeCheck g (left n) = Inr (e, l) \<Longrightarrow> nodes l \<le> nodesP (left n)"
      by (rule IH(1)[OF cIf])
    have ih2: "\<And>e l lt es' xs'. typeCheck g (left n) = Inr (e, l) \<Longrightarrow> typ_of l = Some lt
        \<Longrightarrow> Kind lt = Boolean \<Longrightarrow> typeCheckAll g (stmts n) = Inr (es', xs')
        \<Longrightarrow> nodesL xs' \<le> nodesL (stmts n)"
      by (rule IH(2)[OF cIf _ refl refl]) auto
    have ih3: "\<And>e l lt es' xs' r e3 r'. typeCheck g (left n) = Inr (e, l) \<Longrightarrow> typ_of l = Some lt
        \<Longrightarrow> Kind lt = Boolean \<Longrightarrow> typeCheckAll g (stmts n) = Inr (es', xs')
        \<Longrightarrow> right n = Some r \<Longrightarrow> typeCheck g (Some r) = Inr (e3, r')
        \<Longrightarrow> nodes r' \<le> nodes r"
      using IH(3)[OF cIf _ refl refl _ _ _ refl refl] by fastforce
    show ?thesis
      using u
      apply (auto simp: Let_def elim!: andThen_Inr dest!: stop_nodes finish_nodes
                split: if_splits option.splits prod.splits)
         apply (frule ih1, simp add: nodes_alt)
        apply (frule ih1, simp add: nodes_alt)
       apply (frule ih1, frule (3) ih2, simp add: nodes_alt)
      apply (frule ih1, frule (3) ih2, frule (5) ih3, simp add: nodes_alt)
      done
  next
    case cElse
    show ?thesis
      using unf IH 
      by (auto simp: cElse nodes_alt Let_def deref_def elim!: andThen_Inr dest!: stop_nodes finish_nodes
                split: if_splits option.splits prod.splits)
  next
    case cReturn
    show ?thesis
      using unf IH(5)[unfolded cReturn, simplified]
      by (auto simp: cReturn nodes_alt Let_def deref_def elim!: andThen_Inr dest!: stop_nodes finish_nodes
                split: if_splits option.splits prod.splits)
  next
    case cBin
    have neg: "\<not> (op n = opIf \<or> op n = opElseIf)" "op n \<noteq> opElse" "op n \<noteq> opReturn"
      using cBin by auto
    note u = unf[simplified neg cBin if_True if_False]
    have ih1: "\<And>e l. typeCheck g (left n) = Inr (e, l) \<Longrightarrow> nodes l \<le> nodesP (left n)"
      by (rule IH(6)[OF neg cBin])
    have ih2: "\<And>e l e2 r. typeCheck g (left n) = Inr (e, l) \<Longrightarrow> typeCheck g (right n) = Inr (e2, r)
        \<Longrightarrow> nodes r \<le> nodesP (right n)"
      by (rule IH(7)[OF neg cBin _ refl])
    show ?thesis
      using u
      apply (auto simp: Let_def deref_def elim!: andThen_Inr dest!: stop_nodes finish_nodes
                split: if_splits option.splits prod.splits)
      apply (frule ih1, frule (1) ih2, simp add: nodes_alt)+
      done
  next
    case cNot
    show ?thesis
      using unf IH(8)[unfolded cNot, simplified]
      by (auto simp: cNot nodes_alt Let_def deref_def elim!: andThen_Inr dest!: stop_nodes finish_nodes
                split: if_splits option.splits prod.splits)
  next
    case cLit
    show ?thesis
      using unf TrueI
      by (auto simp: cLit nodes_alt Let_def deref_def elim!: andThen_Inr dest!: stop_nodes finish_nodes
                split: if_splits option.splits prod.splits)
  next
    case cId
    show ?thesis
      using unf TrueI
      by (auto simp: cId nodes_alt Let_def deref_def elim!: andThen_Inr dest!: stop_nodes finish_nodes
                split: if_splits option.splits prod.splits)
  next
    case cCall
    show ?thesis
      using unf IH(9)[unfolded cCall, simplified]
      by (auto simp: cCall nodes_alt Let_def deref_def elim!: andThen_Inr dest!: stop_nodes finish_nodes
                split: if_splits option.splits prod.splits)
  next
    case cCmp
    have neg: "\<not> (op n = opIf \<or> op n = opElseIf)" "op n \<noteq> opElse" "op n \<noteq> opReturn"
      "\<not> (op n = opAnd \<or> op n = opOr \<or> op n = opAdd \<or> op n = opMul \<or> op n = opMin \<or> op n = opDiv)"
      "op n \<noteq> opNot" "op n \<noteq> opLit" "op n \<noteq> opIdentifier" "op n \<noteq> opFuncCall"
      using cCmp by auto
    note u = unf[simplified neg cCmp if_True if_False]
    have ih1: "\<And>e l. typeCheck g (left n) = Inr (e, l) \<Longrightarrow> nodes l \<le> nodesP (left n)"
      by (rule IH(10)[OF neg cCmp])
    have ih2: "\<And>e l e2 r. typeCheck g (left n) = Inr (e, l) \<Longrightarrow> typeCheck g (right n) = Inr (e2, r)
        \<Longrightarrow> nodes r \<le> nodesP (right n)"
      by (rule IH(11)[OF neg cCmp _ refl])
    show ?thesis
      using u
      apply (auto simp: Let_def deref_def elim!: andThen_Inr dest!: stop_nodes finish_nodes
                split: if_splits option.splits prod.splits)
      apply (frule ih1, frule (1) ih2, simp add: nodes_alt)+
      done
  next
    case cDcl
    have neg: "\<not> (op n = opIf \<or> op n = opElseIf)" "op n \<noteq> opElse" "op n \<noteq> opReturn"
      "\<not> (op n = opAnd \<or> op n = opOr \<or> op n = opAdd \<or> op n = opMul \<or> op n = opMin \<or> op n = opDiv)"
      "op n \<noteq> opNot" "op n \<noteq> opLit" "op n \<noteq> opIdentifier" "op n \<noteq> opFuncCall"
      "\<not> (op n = opGt \<or> op n = opLt \<or> op n = opEq)"
      using cDcl by auto
    note u = unf[simplified neg cDcl if_True if_False]
    have ih1: "\<And>e ps. typeCheckAll g (params n) = Inr (e, ps) \<Longrightarrow> nodesL ps \<le> nodesL (params n)"
      by (rule IH(12)[OF neg cDcl])
    have ih2: "\<And>e ps e2 ss. typeCheckAll g (params n) = Inr (e, ps)
        \<Longrightarrow> typeCheckAll g (stmts n) = Inr (e2, ss) \<Longrightarrow> nodesL ss \<le> nodesL (stmts n)"
      by (rule IH(13)[OF neg cDcl _ refl])
    show ?thesis
      using u
      apply (auto simp: Let_def deref_def elim!: andThen_Inr dest!: stop_nodes finish_nodes
                split: if_splits option.splits prod.splits)
      apply (frule ih1, frule (1) ih2, simp add: nodes_alt)+
      done
  next
    case cDot
    have neg: "\<not> (op n = opIf \<or> op n = opElseIf)" "op n \<noteq> opElse" "op n \<noteq> opReturn"
      "\<not> (op n = opAnd \<or> op n = opOr \<or> op n = opAdd \<or> op n = opMul \<or> op n = opMin \<or> op n = opDiv)"
      "op n \<noteq> opNot" "op n \<noteq> opLit" "op n \<noteq> opIdentifier" "op n \<noteq> opFuncCall"
      "\<not> (op n = opGt \<or> op n = opLt \<or> op n = opEq)" "op n \<noteq> opFuncDcl"
      using cDot by auto
    note u = unf[simplified neg cDot if_True if_False]
    have ih1: "\<And>e l. typeCheck g (left n) = Inr (e, l) \<Longrightarrow> nodes l \<le> nodesP (left n)"
      by (rule IH(14)[OF neg cDot])
    have ih2: "\<And>e l lt r e2 n3. typeCheck g (left n) = Inr (e, l) \<Longrightarrow> typ_of l = Some lt
        \<Longrightarrow> right n = Some r \<Longrightarrow> op r = opFuncCall
        \<Longrightarrow> typeCheck g (Some (set_right None (set_left None (set_stmts (Some l # stmts r)
              (set_symtab (symtab r) (set_token (token r) (set_op opFuncCall (set_left (Some l) n)))))))) = Inr (e2, n3)
        \<Longrightarrow> nodes n3 \<le> nodes (set_right None (set_left None (set_stmts (Some l # stmts r)
              (set_symtab (symtab r) (set_token (token r) (set_op opFuncCall (set_left (Some l) n)))))))"
      using IH(15)[OF neg cDot _ refl refl _ _ _ refl] by (simp add: deref_def)
    show ?thesis
      using u
      apply (auto simp: Let_def deref_def elim!: andThen_Inr dest!: stop_nodes finish_nodes
                split: if_splits option.splits prod.splits)
      apply (frule ih1, (frule (4) ih2)?, simp add: nodes_alt)+
      done
  next
    case cArr
    have neg: "\<not> (op n = opIf \<or> op n = opElseIf)" "op n \<noteq> opElse" "op n \<noteq> opReturn"
      "\<not> (op n = opAnd \<or> op n = opOr \<or> op n = opAdd \<or> op n = opMul \<or> op n = opMin \<or> op n = opDiv)"
      "op n \<noteq> opNot" "op n \<noteq> opLit" "op n \<noteq> opIdentifier" "op n \<noteq> opFuncCall"
      "\<not> (op n = opGt \<or> op n = opLt \<or> op n = opEq)" "op n \<noteq> opFuncDcl" "op n \<noteq> opDot"
      using cArr by auto
    note u = unf[simplified neg cArr if_True if_False]
    have ih1: "\<And>e l. typeCheck g (left n) = Inr (e, l) \<Longrightarrow> nodes l \<le> nodesP (left n)"
      by (rule IH(16)[OF neg cArr])
    have ih2: "\<And>e l e2 r. typeCheck g (left n) = Inr (e, l) \<Longrightarrow> typeCheck g (right n) = Inr (e2, r)
        \<Longrightarrow> nodes r \<le> nodesP (right n)"
      by (rule IH(17)[OF neg cArr _ refl])
    show ?thesis
      using u
      apply (auto simp: Let_def deref_def elim!: andThen_Inr dest!: stop_nodes finish_nodes
                split: if_splits option.splits prod.splits)
      apply (frule ih1, frule (1) ih2, simp add: nodes_alt)+
      done
  next
    case cRest
    show ?thesis
      using unf cRest
      by (auto simp: nodes_alt Let_def deref_def elim!: andThen_Inr dest!: stop_nodes finish_nodes
                split: if_splits option.splits prod.splits)
  qed
next
  case (3 g)
  then show ?case by (simp add: typeCheckAll.psimps)
next
  case (4 g x xs)
  from 4(1) 4(4) have eq: "andThen (typeCheck g x) (\<lambda>(e, x').
     andThen (typeCheckAll g xs) (\<lambda>(es, xs'). Inr (e @ es, Some x' # xs'))) = Inr (es', xs')"
    by (simp add: typeCheckAll.psimps)
  then obtain e b where a: "typeCheck g x = Inr (e, b)"
    and rest: "andThen (typeCheckAll g xs) (\<lambda>(es, xs'). Inr (e @ es, Some b # xs')) = Inr (es', xs')"
    by (cases "typeCheck g x") auto
  from rest obtain es2 ys where b: "typeCheckAll g xs = Inr (es2, ys)" and c: "xs' = Some b # ys"
    by (cases "typeCheckAll g xs") auto
  from 4(2)[OF a] 4(3)[OF a refl b] c show ?case by simp
qed

termination typeCheck
proof (relation "measure (\<lambda>x. case x of Inl (g, p) \<Rightarrow> 2 * nodesP p | Inr (g, xs) \<Rightarrow> 2 * nodesL xs + 1)",
       goal_cases)
  case 1
  show ?case by simp
next
  case (16 g n x xa y xb x2 xc xd)
  then show ?case
    by (auto simp: deref_def nodes_alt split: option.splits dest!: typeCheck_nodes(1))
qed (auto simp: nodes_alt split: option.splits)

declare typeCheck.simps [simp del]

lemma typeCheck_nil [simp]: "typeCheck g None = Inl NilPointer"
  by (simp add: typeCheck.simps)

section \<open>Struct constructor synthesis\<close>











section \<open>The parser\<close>

text \<open>
  The parser file belongs to an earlier revision of the compiler than \<open>semantic.go\<close>: its
  nodes have the fields \<open>token\<close>, \<open>stats\<close>, \<open>op\<close> and \<open>sym\<close>, and its symbols are the values
  \<open>Function\<close>, \<open>IntegerLiteralSymbol\<close> and \<open>StringLiteralSymbol\<close>. They are modelled apart
  from the checker's, with the suffix \<open>_p\<close> where a name would clash (\<open>next_p\<close> and \<open>is_p\<close>
  are the methods \<open>next\<close> and \<open>is\<close>).
\<close>

datatype Symbol_p = Function_sym string int int | IntegerLiteralSymbol int | StringLiteralSymbol string


datatype Node_p = Node_p (token_p: "Token option") (stats: "Node_p option list") (op_p: Op)
  (sym_p: "Symbol_p option")





text \<open>
  The parser's state. \<open>pos\<close> starts at 0 and is only ever incremented, so it is a natural
  number.
\<close>

record 'st Parser =
  pos :: nat
  tokens :: "Token list"
  errs :: "error list"
  discard :: bool
  symtab_p :: 'st
  extra :: "Node_p option list"

text \<open>
  A parsing method returns its value, or the panic it raised, together with the parser as
  the call leaves it. \<open>thenP\<close> sequences two steps: after a panic nothing further runs and
  the state is the one in which the panic was raised.
\<close>

definition thenP :: "(panic + 'a) \<times> 's \<Rightarrow> ('a \<Rightarrow> 's \<Rightarrow> (panic + 'b) \<times> 's) \<Rightarrow> (panic + 'b) \<times> 's" where
  "thenP m f = (case m of (Inl e, s) \<Rightarrow> (Inl e, s) | (Inr x, s) \<Rightarrow> f x s)"

lemma thenP_cong [fundef_cong]:
  "m = m' \<Longrightarrow> (\<And>x s. m' = (Inr x, s) \<Longrightarrow> f x s = f' x s) \<Longrightarrow> thenP m f = thenP m' f'"
  by (auto simp: thenP_def split: prod.splits sum.splits)



fun is_p :: "'st Parser \<Rightarrow> Kind_lex list \<Rightarrow> panic + bool" where
  "is_p p [] = Inr False"
| "is_p p (kind # kinds) =
     (if pos p \<ge> length (tokens p) then Inl IndexOutOfRange
      else if Kind_tok (tokens p ! pos p) = kind then Inr True
      else is_p p kinds)"


















subsection \<open>What every parsing step preserves\<close>

text \<open>
  \<open>keeps p p'\<close>: the token list is the same, the position has not moved back and the error
  list has only grown. \<open>eofAt p\<close>: no token follows the current one, so \<open>next\<close> panics.
  \<open>runs p m\<close>: the run \<open>m\<close> started in \<open>p\<close> keeps these, and if it ended in the panic
  \<open>errUnexpectedEof\<close> its final state is one in which \<open>next\<close> has run out of tokens.
\<close>

definition keeps :: "'st Parser \<Rightarrow> 'st Parser \<Rightarrow> bool" where
  "keeps p p' = (tokens p' = tokens p \<and> pos p \<le> pos p' \<and> (\<exists>es. errs p' = errs p @ es))"

definition eofAt :: "'st Parser \<Rightarrow> bool" where
  "eofAt p = (length (tokens p) \<le> pos p + 1)"

definition runs :: "'st Parser \<Rightarrow> (panic + 'a) \<times> 'st Parser \<Rightarrow> bool" where
  "runs p m = (keeps p (snd m) \<and> (fst m = Inl errUnexpectedEof \<longrightarrow> eofAt (snd m)))"

lemma keeps_refl [simp]: "keeps p p"
  by (simp add: keeps_def)







lemma runs_fail: "e \<noteq> errUnexpectedEof \<Longrightarrow> keeps p q \<Longrightarrow> runs p (Inl e, q)"
  by (simp add: runs_def)

lemma is_p_noEof: "is_p p ks \<noteq> Inl errUnexpectedEof"
  by (induction ks) auto








lemma runs_is_case:
  assumes "\<And>b. is_p p ks = Inr b \<Longrightarrow> runs p (f b)"
  shows "runs p (case is_p p ks of Inl e \<Rightarrow> (Inl e, p) | Inr b \<Rightarrow> f b)"
  using assms is_p_noEof[of p ks] by (auto split: sum.splits intro: runs_fail)




subsection \<open>Declarations and the entry point\<close>















section \<open>Example programs\<close>

text \<open>
  A small environment for concrete runs: the predeclared types, one source position for
  every token, and a root scope with two functions (\<open>pair\<close> of two arguments, \<open>title\<close> of
  none, returning a string), an array variable and a string variable.
\<close>

definition errorsOf :: "panic + (error list \<times> 'a) \<Rightarrow> error list" where
  "errorsOf r = (case r of Inl _ \<Rightarrow> [] | Inr (es, _) \<Rightarrow> es)"

definition exInt :: Type where
  "exInt = MkType Integer NoData"

definition exBool :: Type where
  "exBool = MkType Boolean NoData"

definition exString :: Type where
  "exString = MkType String NoData"

definition exArray :: Type where
  "exArray = MkType Array (ArrayData exInt)"

definition exByte :: Type where
  "exByte = MkType Integer NoData"

definition exGlobals :: Globals where
  "exGlobals = \<lparr>intType = exInt, byteType = exByte,
     boolType = exBool, nothingType = MkType Nothing NoData, fn = None\<rparr>"

definition exToken :: "string \<Rightarrow> Token" where
  "exToken v = \<lparr>Kind_tok = lex_Identifier, Val = v, File = ''prog.clara'', Line = 1, Pos = 1\<rparr>"

definition exPair :: FunctionType where
  "exPair = FunctionType ''pair'' 2 False False (Some exInt) None"

definition exTitle :: FunctionType where
  "exTitle = FunctionType ''title'' 0 False False (Some exString) None"

definition exScope :: SymTab where
  "exScope = SymTab
     [Symbol ''pair'' 0 (Some (MkType Function (FunctionData exPair))),
      Symbol ''title'' 0 (Some (MkType Function (FunctionData exTitle))),
      Symbol ''xs'' 0 (Some exArray),
      Symbol ''name'' 0 (Some exString)] None"

definition exNode :: "Op \<Rightarrow> string \<Rightarrow> Node option \<Rightarrow> Node option \<Rightarrow> Node option list \<Rightarrow> Node" where
  "exNode opr v l r ss = Node (Some (exToken v)) l r ss [] opr (Some exScope) None None"

definition exIdent :: "string \<Rightarrow> Node" where
  "exIdent v = exNode opIdentifier v None None []"

definition exCall :: "string \<Rightarrow> Node option list \<Rightarrow> Node" where
  "exCall f as = exNode opFuncCall f None None as"

definition exLit :: "string \<Rightarrow> Type \<Rightarrow> Node" where
  "exLit v t = Node (Some (exToken v)) None None [] [] opLit (Some exScope)
                 (Some (Symbol v 0 (Some t))) None"

definition exSum :: Node where
  "exSum = exNode opAdd ''+'' (Some (exLit ''1'' exInt)) (Some (exLit ''s'' exString)) []"

definition exSumChecked :: Node where
  "exSumChecked = set_typ (Some exInt) (exNode opAdd ''+'' (Some (set_typ (Some exInt) (exLit ''1'' exInt)))
            (Some (set_typ (Some exString) (exLit ''s'' exString))) [])"





lemmas ex_defs = errorsOf_def exInt_def exBool_def exString_def exArray_def exByte_def
  exGlobals_def exToken_def exPair_def exTitle_def exScope_def exNode_def exIdent_def
  exCall_def exLit_def

lemmas tc_defs = deref_def stop_def finish_def printTypeInfo_def semanticError_def
  semanticError2_def AsFunction_def AsStruct_def Offset_def isValid_def operatorTypes_def
  Let_def










section \<open>Properties of the type checker\<close>

subsection \<open>Function calls: arity\<close>

text \<open>
  C1, as the code has it. For a function-call node whose callee resolves to a function,
  \<open>typeCheck\<close> reports exactly one \<open>TooFewArgs\<close> error when the argument count is below the
  declared arity and exactly one \<open>TooManyArgs\<close> error when it exceeds the arity of a
  non-variadic callee. In either case checking of the node stops there: the node is
  returned as it was, so no argument is type-checked and no type is assigned. The
  arguments are type-checked only when the arity test passes.
\<close>

theorem typeCheck_call_arity:
  assumes "op n = opFuncCall" and "token n = Some tok" and "symtab n = Some st"
    and "Resolve st (Val tok) = Some s" and "Type s = Some t" and "Kind t = Function"
    and "AsFunction t = Inr f"
  shows "(int (length (stmts n)) < ArgCount f \<longrightarrow>
            typeCheck g (Some n) = Inr ([Error errTooFewArgsMsg
              [AStr (File tok), AInt (Line tok), AInt (Pos tok), AStr (Val tok)]], n))
       \<and> (ArgCount f < int (length (stmts n)) \<and> \<not> isVariadic f \<longrightarrow>
            typeCheck g (Some n) = Inr ([Error errTooManyArgsMsg
              [AStr (File tok), AInt (Line tok), AInt (Pos tok), AStr (Val tok)]], n))
       \<and> (\<not> int (length (stmts n)) < ArgCount f
            \<and> \<not> (ArgCount f < int (length (stmts n)) \<and> \<not> isVariadic f) \<longrightarrow>
            typeCheck g (Some n) =
              andThen (typeCheckAll g (stmts n)) (\<lambda>(es, ss).
                finish es (set_typ (ret f) (set_sym (Some s) (set_stmts ss n)))))"
  using assms
  by (subst typeCheck.simps(2), simp add: deref_def stop_def semanticError_def)+

text \<open>
  The rule at \<open>pair(x)\<close>, one argument for an arity of two: the single error, the node
  unchanged.
\<close>

theorem typeCheck_call_arity_witness:
  "typeCheck exGlobals (Some (exCall ''pair'' [Some (exIdent ''x'')])) =
     Inr ([Error errTooFewArgsMsg [AStr ''prog.clara'', AInt 1, AInt 1, AStr ''pair'']],
          exCall ''pair'' [Some (exIdent ''x'')])"
  using typeCheck_call_arity [of "exCall ''pair'' [Some (exIdent ''x'')]" "exToken ''pair''" exScope
      "Symbol ''pair'' 0 (Some (MkType Function (FunctionData exPair)))"
      "MkType Function (FunctionData exPair)" exPair exGlobals]
  by (simp add: ex_defs AsFunction_def)

text \<open>
  C1 as the spec states it fails at \<open>pair(x)\<close> with \<open>x\<close> undeclared: checked on its own the
  argument yields an \<open>UnknownVariable\<close> error, and that error is not in the result of the
  call, which holds the arity error alone.
\<close>

theorem typeCheck_call_arity_counterexample:
  "typeCheck exGlobals (Some (exIdent ''x'')) =
     Inr ([Error errUnknownVarMsg [AStr ''prog.clara'', AInt 1, AInt 1, AStr ''x'']], exIdent ''x'')
   \<and> typeCheck exGlobals (Some (exCall ''pair'' [Some (exIdent ''x'')])) =
     Inr ([Error errTooFewArgsMsg [AStr ''prog.clara'', AInt 1, AInt 1, AStr ''pair'']],
          exCall ''pair'' [Some (exIdent ''x'')])
   \<and> Error errUnknownVarMsg [AStr ''prog.clara'', AInt 1, AInt 1, AStr ''x'']
       \<notin> set (errorsOf (typeCheck exGlobals (Some (exCall ''pair'' [Some (exIdent ''x'')]))))"
  by (simp add: typeCheck.simps ex_defs tc_defs)

subsection \<open>If and else-if: a condition that is not Boolean\<close>

text \<open>
  C2, as the code has it. For an if or else-if node whose condition checks to a type that
  is not \<open>Boolean\<close>, \<open>typeCheck\<close> records one mismatch error after the condition's own errors
  and stops: the node keeps its type slot, its body and its chained else-if as they were,
  so neither the body statements nor the else-if are type-checked.
\<close>

theorem typeCheck_if_non_boolean:
  assumes "op n = opIf \<or> op n = opElseIf"
    and "typeCheck g (left n) = Inr (e1, l)" and "typ_of l = Some lt"
    and "Kind lt \<noteq> Boolean" and "token l = Some tok"
  shows "typeCheck g (Some n) =
           Inr (e1 @ [Error errMismatchedTypesMsg
                  [AStr (File tok), AInt (Line tok), AInt (Pos tok),
                   AKind (Kind lt), AKind (Kind (boolType g))]],
                set_left (Some l) n)"
  using assms by (subst typeCheck.simps(2)) (simp add: tc_defs)

text \<open>The rule at \<open>if 1 { x }\<close>.\<close>

theorem typeCheck_if_non_boolean_witness:
  "typeCheck exGlobals (Some (exNode opIf ''if'' (Some (exLit ''1'' exInt)) None [Some (exIdent ''x'')])) =
     Inr ([Error errMismatchedTypesMsg
            [AStr ''prog.clara'', AInt 1, AInt 1, AKind Integer, AKind Boolean]],
          exNode opIf ''if'' (Some (set_typ (Some exInt) (exLit ''1'' exInt))) None [Some (exIdent ''x'')])"
  using typeCheck_if_non_boolean [of "exNode opIf ''if'' (Some (exLit ''1'' exInt)) None [Some (exIdent ''x'')]"
      exGlobals "[]" "set_typ (Some exInt) (exLit ''1'' exInt)" exInt "exToken ''1''"]
  by (simp add: ex_defs typeCheck.simps tc_defs)

text \<open>
  C2 as the spec states it fails at \<open>if 1 { x } else if y { }\<close> with \<open>x\<close> and \<open>y\<close> undeclared:
  the body statement alone yields an \<open>UnknownVariable\<close> error, yet the result of the if node
  holds the mismatch alone, and the body and the else-if come back unchecked.
\<close>

theorem typeCheck_if_non_boolean_counterexample:
  "typeCheck exGlobals (Some (exIdent ''x'')) =
     Inr ([Error errUnknownVarMsg [AStr ''prog.clara'', AInt 1, AInt 1, AStr ''x'']], exIdent ''x'')
   \<and> typeCheck exGlobals (Some (exNode opIf ''if'' (Some (exLit ''1'' exInt))
          (Some (exNode opElseIf ''elseif'' (Some (exIdent ''y'')) None [])) [Some (exIdent ''x'')])) =
     Inr ([Error errMismatchedTypesMsg
            [AStr ''prog.clara'', AInt 1, AInt 1, AKind Integer, AKind Boolean]],
          exNode opIf ''if'' (Some (set_typ (Some exInt) (exLit ''1'' exInt)))
            (Some (exNode opElseIf ''elseif'' (Some (exIdent ''y'')) None [])) [Some (exIdent ''x'')])"
  by (simp add: ex_defs typeCheck.simps tc_defs)

subsection \<open>Binary arithmetic and boolean operators\<close>

text \<open>
  C3, as the code has it. For a binary operator node (\<open>+ - * / and or\<close>) whose two operands
  both received types, \<open>typeCheck\<close> tests the left operand's kind against the operator's
  allowed kinds first: when it is invalid, one \<open>InvalidOperatorType\<close> error for the left
  operand is recorded and checking of the node stops, so the right operand's kind is not
  tested and the node gets no type. When the left kind is valid and the right kind is not,
  one \<open>InvalidOperatorType\<close> error for the right operand is recorded and the node gets no
  type. When both kinds are valid, a mismatch error is recorded if the kinds differ, and in
  either case the node's type is the left operand's type.
\<close>

theorem typeCheck_binary_operands:
  assumes "op n = opAnd \<or> op n = opOr \<or> op n = opAdd \<or> op n = opMul \<or> op n = opMin \<or> op n = opDiv"
    and "typeCheck g (left n) = Inr (e1, l)" and "typeCheck g (right n) = Inr (e2, r)"
    and "typ_of l = Some lt" and "typ_of r = Some rt"
    and "token n = Some tok" and "token l = Some ltok" and "token r = Some rtok"
  shows "(\<not> isValid operatorTypes (op n) (Kind lt) \<longrightarrow>
            typeCheck g (Some n) =
              Inr (e1 @ e2 @ [Error errInvalidOperatorTypeMsg
                     [AStr (File ltok), AInt (Line ltok), AInt (Pos ltok),
                      ATypeName lt, AStr (Val tok)]],
                   set_right (Some r) (set_left (Some l) n)))
       \<and> (isValid operatorTypes (op n) (Kind lt) \<and> \<not> isValid operatorTypes (op n) (Kind rt) \<longrightarrow>
            typeCheck g (Some n) =
              Inr (e1 @ e2 @ [Error errInvalidOperatorTypeMsg
                     [AStr (File rtok), AInt (Line rtok), AInt (Pos rtok),
                      ATypeName rt, AStr (Val tok)]],
                   set_right (Some r) (set_left (Some l) n)))
       \<and> (isValid operatorTypes (op n) (Kind lt) \<and> isValid operatorTypes (op n) (Kind rt) \<longrightarrow>
            typeCheck g (Some n) =
              Inr (e1 @ e2 @ (if Kind lt \<noteq> Kind rt
                     then [Error errMismatchedTypesMsg
                             [AStr (File ltok), AInt (Line ltok), AInt (Pos ltok),
                              ATypeName lt, ATypeName rt]]
                     else []),
                   set_typ (Some lt) (set_right (Some r) (set_left (Some l) n))))"
proof -
  have notIf: "\<not> (op n = opIf \<or> op n = opElseIf)" "op n \<noteq> opElse" "op n \<noteq> opReturn"
    using assms(1) by auto
  show ?thesis
    using assms notIf
    by (subst typeCheck.simps(2), simp add: deref_def stop_def finish_def printTypeInfo_def
          semanticError2_def Let_def)+
qed

text \<open>The rule at \<open>1 - true\<close>: the left kind is valid for \<open>-\<close>, the right kind is not.\<close>

theorem typeCheck_binary_operands_witness:
  "typeCheck exGlobals (Some (exNode opMin ''-'' (Some (exLit ''1'' exInt)) (Some (exLit ''true'' exBool)) [])) =
     Inr ([Error errInvalidOperatorTypeMsg
            [AStr ''prog.clara'', AInt 1, AInt 1, ATypeName exBool, AStr ''-'']],
          exNode opMin ''-'' (Some (set_typ (Some exInt) (exLit ''1'' exInt)))
            (Some (set_typ (Some exBool) (exLit ''true'' exBool))) [])"
  using typeCheck_binary_operands [of "exNode opMin ''-'' (Some (exLit ''1'' exInt)) (Some (exLit ''true'' exBool)) []"
      exGlobals "[]" "set_typ (Some exInt) (exLit ''1'' exInt)" "[]"
      "set_typ (Some exBool) (exLit ''true'' exBool)" exInt exBool "exToken ''-''"
      "exToken ''1''" "exToken ''true''"]
  by (simp add: ex_defs typeCheck.simps tc_defs)

text \<open>
  C3 as the spec states it fails at \<open>true - false\<close>: both operand kinds are invalid for \<open>-\<close>,
  and the result holds one \<open>InvalidOperatorType\<close> error, for the left operand, not two.
\<close>

theorem typeCheck_binary_operands_counterexample:
  "typeCheck exGlobals (Some (exNode opMin ''-'' (Some (exLit ''true'' exBool)) (Some (exLit ''false'' exBool)) [])) =
     Inr ([Error errInvalidOperatorTypeMsg
            [AStr ''prog.clara'', AInt 1, AInt 1, ATypeName exBool, AStr ''-'']],
          exNode opMin ''-'' (Some (set_typ (Some exBool) (exLit ''true'' exBool)))
            (Some (set_typ (Some exBool) (exLit ''false'' exBool))) [])
   \<and> \<not> isValid operatorTypes opMin (Kind exBool)"
  by (simp add: ex_defs typeCheck.simps tc_defs)

text \<open>
  C10. For a binary operator node whose two operands both have types that the operator
  accepts but whose kinds differ, \<open>typeCheck\<close> records a \<open>MismatchedTypes\<close> error and still
  assigns the node the left operand's type, so the node has a type for its parent despite
  the error. (A node without a token makes the debug print panic, hence the token.)
\<close>

theorem typeCheck_binary_mismatch_typed:
  assumes "op n = opAnd \<or> op n = opOr \<or> op n = opAdd \<or> op n = opMul \<or> op n = opMin \<or> op n = opDiv"
    and "typeCheck g (left n) = Inr (e1, l)" and "typeCheck g (right n) = Inr (e2, r)"
    and "typ_of l = Some lt" and "typ_of r = Some rt"
    and "isValid operatorTypes (op n) (Kind lt)" and "isValid operatorTypes (op n) (Kind rt)"
    and "Kind lt \<noteq> Kind rt"
    and "token n = Some tok" and "token l = Some ltok"
  shows "typeCheck g (Some n) =
           Inr (e1 @ e2 @ [Error errMismatchedTypesMsg
                  [AStr (File ltok), AInt (Line ltok), AInt (Pos ltok), ATypeName lt, ATypeName rt]],
                set_typ (Some lt) (set_right (Some r) (set_left (Some l) n)))
         \<and> hasType (set_typ (Some lt) (set_right (Some r) (set_left (Some l) n)))"
proof -
  have notIf: "\<not> (op n = opIf \<or> op n = opElseIf)" "op n \<noteq> opElse" "op n \<noteq> opReturn"
    using assms(1) by auto
  show ?thesis
    using assms notIf
    by (subst typeCheck.simps(2), simp add: deref_def stop_def finish_def printTypeInfo_def
          semanticError2_def Let_def hasType_def)
qed

text \<open>The rule at \<open>1 + "s"\<close>: \<open>+\<close> accepts both \<open>Integer\<close> and \<open>String\<close>.\<close>

theorem typeCheck_binary_mismatch_typed_witness:
  "typeCheck exGlobals (Some (exNode opAdd ''+'' (Some (exLit ''1'' exInt)) (Some (exLit ''s'' exString)) [])) =
     Inr ([Error errMismatchedTypesMsg
            [AStr ''prog.clara'', AInt 1, AInt 1, ATypeName exInt, ATypeName exString]],
          set_typ (Some exInt) (exNode opAdd ''+'' (Some (set_typ (Some exInt) (exLit ''1'' exInt)))
            (Some (set_typ (Some exString) (exLit ''s'' exString))) []))
   \<and> hasType (set_typ (Some exInt) (exNode opAdd ''+'' (Some (set_typ (Some exInt) (exLit ''1'' exInt)))
            (Some (set_typ (Some exString) (exLit ''s'' exString))) []))"
  using typeCheck_binary_mismatch_typed [of "exNode opAdd ''+'' (Some (exLit ''1'' exInt)) (Some (exLit ''s'' exString)) []"
      exGlobals "[]" "set_typ (Some exInt) (exLit ''1'' exInt)" "[]"
      "set_typ (Some exString) (exLit ''s'' exString)" exInt exString "exToken ''+''"
      "exToken ''1''"]
  by (simp add: ex_defs typeCheck.simps tc_defs)

subsection \<open>Array index\<close>

text \<open>
  C4, as the code has it. For an array-index node \<open>left[right]\<close> whose two operands both
  received types: if the type of \<open>right\<close> is not \<open>Integer\<close>, one \<open>NonIntegerIndex\<close> error is
  appended to the operands' errors and the node gets no type; otherwise the node's type is
  the single-byte type when \<open>left\<close> is \<open>String\<close>-typed, and the type of \<open>left\<close> itself in every
  other case: indexing an \<open>Array<T>\<close> yields \<open>Array<T>\<close>, not \<open>T\<close>.
\<close>

theorem typeCheck_array_index:
  assumes "op n = opArray"
    and "typeCheck g (left n) = Inr (e1, l)" and "typeCheck g (right n) = Inr (e2, r)"
    and "typ_of l = Some lt" and "typ_of r = Some rt"
    and "token n = Some tok" and "token r = Some rtok"
  shows "(Kind rt \<noteq> Integer \<longrightarrow>
            typeCheck g (Some n) =
              Inr (e1 @ e2 @ [Error errNonIntegerIndexMsg
                     [AStr (File rtok), AInt (Line rtok), AInt (Pos rtok), AKind (Kind rt)]],
                   set_right (Some r) (set_left (Some l) n)))
       \<and> (Kind rt = Integer \<longrightarrow>
            typeCheck g (Some n) =
              Inr (e1 @ e2,
                   set_typ (Some (if Kind lt = String then byteType g else lt))
                     (set_right (Some r) (set_left (Some l) n))))"
  using assms
  by (subst typeCheck.simps(2), simp add: deref_def stop_def finish_def printTypeInfo_def
        semanticError2_def Let_def)+

text \<open>The rule at \<open>name[0]\<close> for the string variable \<open>name\<close>.\<close>

theorem typeCheck_array_index_witness:
  "typeCheck exGlobals (Some (exNode opArray ''['' (Some (exIdent ''name'')) (Some (exLit ''0'' exInt)) [])) =
     Inr ([], set_typ (Some exByte)
       (exNode opArray ''['' (Some (set_typ (Some exString) (set_sym (Some (Symbol ''name'' 0 (Some exString))) (exIdent ''name''))))
          (Some (set_typ (Some exInt) (exLit ''0'' exInt))) []))"
  using typeCheck_array_index [of "exNode opArray ''['' (Some (exIdent ''name'')) (Some (exLit ''0'' exInt)) []"
      exGlobals "[]" "set_typ (Some exString) (set_sym (Some (Symbol ''name'' 0 (Some exString))) (exIdent ''name''))"
      "[]" "set_typ (Some exInt) (exLit ''0'' exInt)" exString exInt "exToken ''[''" "exToken ''0''"]
  by (simp add: ex_defs typeCheck.simps tc_defs)

text \<open>
  C4 as the spec states it fails at \<open>xs[0]\<close> for \<open>xs\<close> of type \<open>Array<Integer>\<close>: the node's
  type is \<open>Array<Integer>\<close>, which is not the element type \<open>Integer\<close>.
\<close>

theorem typeCheck_array_index_counterexample:
  "typeCheck exGlobals (Some (exNode opArray ''['' (Some (exIdent ''xs'')) (Some (exLit ''0'' exInt)) [])) =
     Inr ([], set_typ (Some (MkType Array (ArrayData exInt)))
       (exNode opArray ''['' (Some (set_typ (Some exArray) (set_sym (Some (Symbol ''xs'' 0 (Some exArray))) (exIdent ''xs''))))
          (Some (set_typ (Some exInt) (exLit ''0'' exInt))) []))
   \<and> MkType Array (ArrayData exInt) \<noteq> exInt"
  by (simp add: ex_defs typeCheck.simps tc_defs)

subsection \<open>Dot expressions\<close>

text \<open>
  C5. The spec gives every \<open>String\<close>-typed receiver the implicit field \<open>length\<close>, and the
  comment in the code says the same of strings. The code reaches the special case only
  where the receiver carries a symbol whose type is \<open>String\<close> (a string literal, a string
  variable): it tests \<open>left.sym.Type\<close>, not the type the receiver checked to. On that path
  the node and the field node get the \<open>Integer\<close> type constant through a new symbol
  \<open>length\<close> at address 0 and the call returns at once, no struct descriptor consulted.
\<close>

lemma typeCheck_length_of_symbol:
  assumes "op n = opDot"
    and "typeCheck g (left n) = Inr (e1, l)" and "typ_of l = Some lt"
    and "right n = Some r" and "op r = opIdentifier"
    and "sym_of l = Some ls" and "Type ls = Some lst" and "Kind lst = String"
    and "token r = Some rtok" and "Val rtok = ''length''"
  shows "typeCheck g (Some n) =
           Inr (e1, set_typ (Some (intType g))
                  (set_right (Some (set_typ (Some (intType g))
                      (set_sym (Some (Symbol ''length'' 0 (Some (intType g)))) r)))
                    (set_left (Some l) n)))"
  using assms by (subst typeCheck.simps(2)) (simp add: deref_def Let_def)

lemma typeCheck_length_of_literal:
  "typeCheck exGlobals (Some (exNode opDot ''.'' (Some (exLit ''abc'' exString)) (Some (exIdent ''length'')) [])) =
     Inr ([], set_typ (Some exInt)
        (exNode opDot ''.'' (Some (set_typ (Some exString) (exLit ''abc'' exString)))
           (Some (set_typ (Some exInt) (set_sym (Some (Symbol ''length'' 0 (Some exInt))) (exIdent ''length'')))) []))"
  using typeCheck_length_of_symbol [of "exNode opDot ''.'' (Some (exLit ''abc'' exString)) (Some (exIdent ''length'')) []"
      exGlobals "[]" "set_typ (Some exString) (exLit ''abc'' exString)" exString "exIdent ''length''"
      "Symbol ''abc'' 0 (Some exString)" exString "exToken ''length''"]
  by (simp add: ex_defs typeCheck.simps tc_defs)

text \<open>
  C5, the defect. A receiver that checks to the \<open>String\<close> type without a \<open>String\<close> symbol
  misses the special case. The concatenation \<open>"a" + "b"\<close> checks to \<open>String\<close> with no errors
  and carries no symbol, so \<open>("a" + "b").length\<close> dereferences nil: the checker panics
  instead of typing the node \<open>Integer\<close>. The call \<open>title()\<close> checks to \<open>String\<close> and carries
  the function's symbol, so \<open>title().length\<close> is rejected with a \<open>NotAStruct\<close> error and
  gets no type.
\<close>

theorem typeCheck_string_length_defect:
  "typeCheck exGlobals (Some (exNode opAdd ''+'' (Some (exLit ''a'' exString)) (Some (exLit ''b'' exString)) [])) =
     Inr ([], set_typ (Some exString)
        (exNode opAdd ''+'' (Some (set_typ (Some exString) (exLit ''a'' exString)))
           (Some (set_typ (Some exString) (exLit ''b'' exString))) []))
   \<and> typeCheck exGlobals (Some (exNode opDot ''.''
        (Some (exNode opAdd ''+'' (Some (exLit ''a'' exString)) (Some (exLit ''b'' exString)) []))
        (Some (exIdent ''length'')) [])) = Inl NilPointer
   \<and> typeCheck exGlobals (Some (exCall ''title'' [])) =
     Inr ([], set_typ (Some exString)
                (set_sym (Some (Symbol ''title'' 0 (Some (MkType Function (FunctionData exTitle)))))
                   (exCall ''title'' [])))
   \<and> typeCheck exGlobals (Some (exNode opDot ''.'' (Some (exCall ''title'' [])) (Some (exIdent ''length'')) [])) =
     Inr ([Error errNotStructMsg [AStr ''prog.clara'', AInt 1, AInt 1, AStr ''title'']],
          exNode opDot ''.''
            (Some (set_typ (Some exString)
                (set_sym (Some (Symbol ''title'' 0 (Some (MkType Function (FunctionData exTitle)))))
                   (exCall ''title'' []))))
            (Some (exIdent ''length'')) [])"
  by (simp add: ex_defs typeCheck.simps tc_defs)

text \<open>The call rule keeps the node's token, and returns only for a node that has one.\<close>

lemma typeCheck_call_token:
  assumes "op c = opFuncCall" and "typeCheck g (Some c) = Inr (es, c')"
  shows "token c' = token c \<and> token c \<noteq> None"
  using assms(2)
  apply (subst (asm) typeCheck.simps(2))
  apply (simp add: assms(1))
  apply (auto simp: deref_def stop_def finish_def printTypeInfo_def semanticError_def semanticError2_def
      elim!: andThen_Inr split: option.splits if_splits prod.splits)
  done

text \<open>
  C7, as the code has it. For a dot node whose right side is a function call: when the left
  operand, once checked, has no type, the node is returned unrewritten with the left
  operand's errors. When it has a type, the node is rewritten in place into a function-call
  node (operator \<open>opFuncCall\<close>; token and scope of the call; argument list the checked left
  operand followed by the call's arguments; left and right slots cleared; parameter list,
  symbol and type slots kept) and is checked by the function-call rule; the result is the
  left operand's errors followed by the result of that check, in which the receiver, now
  the first argument, is checked a second time.
\<close>

theorem typeCheck_dot_call_rewrite:
  assumes "op n = opDot"
    and "typeCheck g (left n) = Inr (e1, l)"
    and "right n = Some r" and "op r = opFuncCall"
  shows "(typ_of l = None \<longrightarrow> typeCheck g (Some n) = Inr (e1, set_left (Some l) n))
       \<and> (typ_of l \<noteq> None \<longrightarrow>
            typeCheck g (Some n) =
              (case typeCheck g (Some (Node (token r) None None (Some l # stmts r) (params n)
                                         opFuncCall (symtab r) (sym_of n) (typ_of n))) of
                 Inl p \<Rightarrow> Inl p
               | Inr (e2, n') \<Rightarrow> Inr (e1 @ e2, n')))"
proof (intro conjI impI)
  assume "typ_of l = None"
  then show "typeCheck g (Some n) = Inr (e1, set_left (Some l) n)"
    using assms by (subst typeCheck.simps(2)) (simp add: Let_def)
next
  assume typed: "typ_of l \<noteq> None"
  let ?call = "Node (token r) None None (Some l # stmts r) (params n) opFuncCall (symtab r)
                 (sym_of n) (typ_of n)"
  have rw: "set_right None (set_left None (set_stmts (Some l # stmts r)
              (set_symtab (symtab r) (set_token (token r) (set_op opFuncCall (set_left (Some l) n)))))) = ?call"
    by (cases n) simp
  have step: "typeCheck g (Some n) =
      andThen (typeCheck g (Some ?call)) (\<lambda>(e2, n3). finish (e1 @ e2) n3)"
    using assms typed by (subst typeCheck.simps(2)) (auto simp: deref_def Let_def rw)
  show "typeCheck g (Some n) =
          (case typeCheck g (Some ?call) of Inl p \<Rightarrow> Inl p | Inr (e2, n') \<Rightarrow> Inr (e1 @ e2, n'))"
  proof (cases "typeCheck g (Some ?call)")
    case (Inl p)
    then show ?thesis by (simp add: step)
  next
    case (Inr x)
    obtain e2 n' where x: "x = (e2, n')" by (cases x)
    from typeCheck_call_token[of ?call g e2 n'] Inr x have "token n' \<noteq> None" by simp
    then show ?thesis using Inr x by (auto simp: step finish_def printTypeInfo_def deref_def)
  qed
qed

text \<open>The rule at \<open>1.pair(2)\<close>.\<close>

theorem typeCheck_dot_call_rewrite_witness:
  "typeCheck exGlobals (Some (exNode opDot ''.'' (Some (exLit ''1'' exInt))
       (Some (exCall ''pair'' [Some (exLit ''2'' exInt)])) [])) =
     Inr ([], set_typ (Some exInt)
                (set_sym (Some (Symbol ''pair'' 0 (Some (MkType Function (FunctionData exPair)))))
                   (exCall ''pair'' [Some (set_typ (Some exInt) (exLit ''1'' exInt)),
                                     Some (set_typ (Some exInt) (exLit ''2'' exInt))])))"
  using typeCheck_dot_call_rewrite [of "exNode opDot ''.'' (Some (exLit ''1'' exInt))
       (Some (exCall ''pair'' [Some (exLit ''2'' exInt)])) []" exGlobals "[]"
       "set_typ (Some exInt) (exLit ''1'' exInt)" "exCall ''pair'' [Some (exLit ''2'' exInt)]"]
  by (simp add: ex_defs typeCheck.simps tc_defs)

text \<open>
  C7 as the spec states it fails twice. At \<open>(1 + "s").pair(2)\<close> the node is rewritten, but
  the receiver's mismatch error is reported twice, whereas the direct call
  \<open>pair(1 + "s", 2)\<close> reports it once. At \<open>x.pair(2)\<close> with \<open>x\<close> undeclared the node is not
  rewritten at all and stays an untyped dot node, whereas the direct call \<open>pair(x, 2)\<close> is
  resolved and typed.
\<close>

theorem typeCheck_dot_call_rewrite_counterexample:
  "typeCheck exGlobals (Some (exNode opDot ''.'' (Some exSum)
       (Some (exCall ''pair'' [Some (exLit ''2'' exInt)])) [])) =
     Inr ([Error errMismatchedTypesMsg
            [AStr ''prog.clara'', AInt 1, AInt 1, ATypeName exInt, ATypeName exString],
           Error errMismatchedTypesMsg
            [AStr ''prog.clara'', AInt 1, AInt 1, ATypeName exInt, ATypeName exString]],
          set_typ (Some exInt)
            (set_sym (Some (Symbol ''pair'' 0 (Some (MkType Function (FunctionData exPair)))))
               (exCall ''pair'' [Some exSumChecked, Some (set_typ (Some exInt) (exLit ''2'' exInt))])))
   \<and> typeCheck exGlobals (Some (exCall ''pair'' [Some exSum, Some (exLit ''2'' exInt)])) =
     Inr ([Error errMismatchedTypesMsg
            [AStr ''prog.clara'', AInt 1, AInt 1, ATypeName exInt, ATypeName exString]],
          set_typ (Some exInt)
            (set_sym (Some (Symbol ''pair'' 0 (Some (MkType Function (FunctionData exPair)))))
               (exCall ''pair'' [Some exSumChecked, Some (set_typ (Some exInt) (exLit ''2'' exInt))])))
   \<and> typeCheck exGlobals (Some (exNode opDot ''.'' (Some (exIdent ''x''))
       (Some (exCall ''pair'' [Some (exLit ''2'' exInt)])) [])) =
     Inr ([Error errUnknownVarMsg [AStr ''prog.clara'', AInt 1, AInt 1, AStr ''x'']],
          exNode opDot ''.'' (Some (exIdent ''x'')) (Some (exCall ''pair'' [Some (exLit ''2'' exInt)])) [])
   \<and> typeCheck exGlobals (Some (exCall ''pair'' [Some (exIdent ''x''), Some (exLit ''2'' exInt)])) =
     Inr ([Error errUnknownVarMsg [AStr ''prog.clara'', AInt 1, AInt 1, AStr ''x'']],
          set_typ (Some exInt)
            (set_sym (Some (Symbol ''pair'' 0 (Some (MkType Function (FunctionData exPair)))))
               (exCall ''pair'' [Some (exIdent ''x''), Some (set_typ (Some exInt) (exLit ''2'' exInt))])))"
  by (simp add: exSum_def exSumChecked_def ex_defs typeCheck.simps tc_defs)

section \<open>Properties of struct constructor synthesis\<close>




section \<open>Properties of the parser\<close>

subsection \<open>Running out of tokens\<close>




subsection \<open>Panic-mode recovery\<close>











end
